theory Spec2Isabelle
  imports Main "HOL-Library.AList" "HOL-Library.Char_ord" "HOL-Library.List_Lexorder"
begin

section \<open>Library functions the package calls\<close>

text \<open>
  Go strings are byte strings; they are modelled as \<^typ>\<open>string\<close>. The functions of this
  section stand for the Go standard library (\<^verbatim>\<open>strings\<close>, \<^verbatim>\<open>strconv\<close>, \<^verbatim>\<open>fmt\<close>,
  \<^verbatim>\<open>net/http\<close>, \<^verbatim>\<open>encoding/json\<close>). They follow the library on ASCII text; a byte above
  0x7F is copied unchanged and counts as part of a word (the library decodes UTF-8 and
  consults the Unicode tables there).
\<close>

definition ascii :: "string \<Rightarrow> bool" where
  "ascii s = list_all (\<lambda>c. (of_char c :: nat) < 128) s"

definition is_upper :: "char \<Rightarrow> bool" where
  "is_upper c = (65 \<le> (of_char c :: nat) \<and> (of_char c :: nat) \<le> 90)"

definition is_lower :: "char \<Rightarrow> bool" where
  "is_lower c = (97 \<le> (of_char c :: nat) \<and> (of_char c :: nat) \<le> 122)"

definition is_digit :: "char \<Rightarrow> bool" where
  "is_digit c = (48 \<le> (of_char c :: nat) \<and> (of_char c :: nat) \<le> 57)"

text \<open>\<^verbatim>\<open>unicode.ToLower\<close> and \<^verbatim>\<open>unicode.ToTitle\<close> on one byte.\<close>

definition to_lower :: "char \<Rightarrow> char" where
  "to_lower c = (if is_upper c then char_of ((of_char c :: nat) + 32) else c)"

definition to_title :: "char \<Rightarrow> char" where
  "to_title c = (if is_lower c then char_of ((of_char c :: nat) - 32) else c)"

text \<open>\<^verbatim>\<open>strings.ToLower\<close>.\<close>

definition ToLower :: "string \<Rightarrow> string" where
  "ToLower s = map to_lower s"

text \<open>
  \<^verbatim>\<open>strings.Title\<close>: the first letter of every word is mapped to title case, every other
  byte is copied. A word starts after a separator; the letters, the digits and the
  underscore are not separators, and the scan starts as if after a space.
\<close>

definition isSeparator :: "char \<Rightarrow> bool" where
  "isSeparator c =
     (if (of_char c :: nat) \<le> 127
      then \<not> (is_digit c \<or> is_lower c \<or> is_upper c \<or> c = CHR ''_'')
      else False)"

fun Title_from :: "char \<Rightarrow> string \<Rightarrow> string" where
  "Title_from prev [] = []"
| "Title_from prev (r # s) = (if isSeparator prev then to_title r else r) # Title_from r s"

definition Title_str :: "string \<Rightarrow> string" where
  "Title_str s = Title_from (CHR '' '') s"

text \<open>
  Decimal numerals, as \<^verbatim>\<open>%d\<close> and \<^verbatim>\<open>strconv.Itoa\<close> write them: \<open>show_digits\<close> writes a
  number that is not negative, \<open>show_int\<close> puts the sign in front.
\<close>

definition digit_char :: "nat \<Rightarrow> char" where
  "digit_char d = char_of (48 + d)"

function show_digits :: "int \<Rightarrow> string" where
  "show_digits n =
     (if n < 10 then [digit_char (nat n)]
      else show_digits (n div 10) @ [digit_char (nat (n mod 10))])"
  by pat_completeness auto
termination
  by (relation "measure nat") auto

declare show_digits.simps [simp del]

definition show_int :: "int \<Rightarrow> string" where
  "show_int i = (if i < 0 then CHR ''-'' # show_digits (- i) else show_digits i)"

text \<open>
  \<^verbatim>\<open>strconv.Atoi\<close>, which is \<^verbatim>\<open>ParseInt(s, 10, 0)\<close> on a 64-bit platform: an optional
  sign, then \<^verbatim>\<open>ParseUint\<close> on the rest, which scans the decimal digits from the left and
  stops at the first byte that is no digit (a syntax error) or at the first overflow of
  64 bits (a range error); the value then has to fit the signed 64-bit \<^verbatim>\<open>int\<close>.
\<close>

datatype num_error = ErrSyntax | ErrRange

definition digit_val :: "char \<Rightarrow> nat" where
  "digit_val c = (of_char c :: nat) - 48"

definition maxUint64 :: int where
  "maxUint64 = 2 ^ 64 - 1"

fun ParseUint_scan :: "string \<Rightarrow> int \<Rightarrow> num_error + int" where
  "ParseUint_scan [] n = Inr n"
| "ParseUint_scan (c # cs) n =
     (if \<not> is_digit c then Inl ErrSyntax
      else if maxUint64 div 10 + 1 \<le> n then Inl ErrRange
      else let n1 = n * 10 + int (digit_val c)
           in if maxUint64 < n1 then Inl ErrRange else ParseUint_scan cs n1)"

definition ParseUint :: "string \<Rightarrow> num_error + int" where
  "ParseUint s = (if s = [] then Inl ErrSyntax else ParseUint_scan s 0)"

definition Atoi :: "string \<Rightarrow> num_error + int" where
  "Atoi s =
     (if s = [] then Inl ErrSyntax
      else let neg = (hd s = CHR ''-'');
               ds = (if hd s = CHR ''+'' \<or> hd s = CHR ''-'' then tl s else s)
           in case ParseUint ds of
                Inl ErrSyntax \<Rightarrow> Inl ErrSyntax
              | r \<Rightarrow>
                  (let un = (case r of Inr n \<Rightarrow> n | Inl e \<Rightarrow> maxUint64)
                   in if \<not> neg \<and> 2 ^ 63 \<le> un then Inl ErrRange
                      else if neg \<and> 2 ^ 63 < un then Inl ErrRange
                      else Inr (if neg then - un else un)))"

text \<open>\<^verbatim>\<open>strconv.Quote\<close>, used in the messages of \<^verbatim>\<open>strconv\<close> errors.\<close>

definition hex_digit :: "nat \<Rightarrow> char" where
  "hex_digit d = (if d < 10 then char_of (48 + d) else char_of (87 + d))"

definition quote_char :: "char \<Rightarrow> string" where
  "quote_char c =
     (let n = (of_char c :: nat) in
      if c = CHR 0x22 then [CHR 0x5C, CHR 0x22]
      else if c = CHR 0x5C then [CHR 0x5C, CHR 0x5C]
      else if n = 7 then [CHR 0x5C, CHR ''a'']
      else if n = 8 then [CHR 0x5C, CHR ''b'']
      else if n = 12 then [CHR 0x5C, CHR ''f'']
      else if n = 10 then [CHR 0x5C, CHR ''n'']
      else if n = 13 then [CHR 0x5C, CHR ''r'']
      else if n = 9 then [CHR 0x5C, CHR ''t'']
      else if n = 11 then [CHR 0x5C, CHR ''v'']
      else if n < 32 \<or> n = 127 then [CHR 0x5C, CHR ''x'', hex_digit (n div 16), hex_digit (n mod 16)]
      else [c])"

definition Quote :: "string \<Rightarrow> string" where
  "Quote s = [CHR 0x22] @ concat (map quote_char s) @ [CHR 0x22]"

definition num_error_text :: "string \<Rightarrow> num_error \<Rightarrow> string" where
  "num_error_text s e =
     ''strconv.Atoi: parsing '' @ Quote s @
       (case e of ErrSyntax \<Rightarrow> '': invalid syntax'' | ErrRange \<Rightarrow> '': value out of range'')"

subsection \<open>Dynamically typed values and JSON documents\<close>

text \<open>
  The values an \<^verbatim>\<open>interface{}\<close> holds in this package: nil, booleans, strings, ints,
  float64s, byte slices, slices and string-keyed maps. A float64 is represented by the
  integer it holds: the float64s that reach the package come from decoding integer
  literals (integers up to \<open>2 ^ 53\<close> in size are held exactly). A map is an association list
  with distinct keys.

  The bytes a successful encoding produces are represented by the JSON document they spell.
\<close>

datatype json =
    JNull
  | JBool bool
  | JNumber int
  | JString string
  | JArray "json list"
  | JObject "(string \<times> json) list"

datatype "value" =
    VNil
  | VBool bool
  | VString string
  | VInt int
  | VFloat64 int
  | VBytes string
  | VSlice "value list"
  | VMap "(string \<times> value) list"

definition join :: "string \<Rightarrow> string list \<Rightarrow> string" where
  "join sep xs = (case xs of [] \<Rightarrow> [] | y # ys \<Rightarrow> y @ concat (map (\<lambda>z. sep @ z) ys))"

text \<open>
  \<^verbatim>\<open>%v\<close> of a float64: the shortest digits, in \<^verbatim>\<open>%e\<close> form when the decimal exponent is 6 or
  more (\<^verbatim>\<open>1e+06\<close>), in plain form below.
\<close>

fun strip_zeros :: "string \<Rightarrow> string" where
  "strip_zeros ds = (if ds \<noteq> [] \<and> last ds = CHR ''0'' then strip_zeros (butlast ds) else ds)"

declare strip_zeros.simps [simp del]

definition show_exp :: "nat \<Rightarrow> string" where
  "show_exp e = (if e < 10 then CHR ''0'' # show_digits (int e) else show_digits (int e))"

definition show_float_abs :: "int \<Rightarrow> string" where
  "show_float_abs n =
     (if n < 1000000 then show_digits n
      else let ds = show_digits n; m = strip_zeros ds
           in [hd m] @ (if tl m = [] then [] else CHR ''.'' # tl m) @ ''e+'' @ show_exp (length ds - 1))"

definition show_float :: "int \<Rightarrow> string" where
  "show_float i = (if i < 0 then CHR ''-'' # show_float_abs (- i) else show_float_abs i)"

text \<open>\<^verbatim>\<open>fmt.Sprint\<close> of one operand. A map is printed with its keys sorted.\<close>

fun Sprint :: "value \<Rightarrow> string" where
  "Sprint VNil = ''<nil>''"
| "Sprint (VBool b) = (if b then ''true'' else ''false'')"
| "Sprint (VString s) = s"
| "Sprint (VInt i) = show_int i"
| "Sprint (VFloat64 i) = show_float i"
| "Sprint (VBytes bs) = ''['' @ join '' '' (map (\<lambda>c. show_digits (of_char c)) bs) @ '']''"
| "Sprint (VSlice vs) = ''['' @ join '' '' (map Sprint vs) @ '']''"
| "Sprint (VMap kvs) =
     ''map['' @ join '' '' (map (\<lambda>kv. fst kv @ '':'' @ Sprint (snd kv)) (sort_key fst kvs)) @ '']''"

text \<open>Standard base64 with padding, as \<^verbatim>\<open>encoding/json\<close> writes a byte slice.\<close>

definition base64_alphabet :: string where
  "base64_alphabet = ''ABCDEFGHIJKLMNOPQRSTUVWXYZabcdefghijklmnopqrstuvwxyz0123456789+/''"

definition b64 :: "nat \<Rightarrow> char" where
  "b64 i = base64_alphabet ! (i mod 64)"

fun base64 :: "nat list \<Rightarrow> string" where
  "base64 [] = []"
| "base64 [a] = [b64 (a div 4), b64 ((a mod 4) * 16), CHR ''='', CHR ''='']"
| "base64 [a, b] = [b64 (a div 4), b64 ((a mod 4) * 16 + b div 16), b64 ((b mod 16) * 4), CHR ''='']"
| "base64 (a # b # c # r) =
     [b64 (a div 4), b64 ((a mod 4) * 16 + b div 16), b64 ((b mod 16) * 4 + c div 64), b64 (c mod 64)]
     @ base64 r"

text \<open>
  \<^verbatim>\<open>json.Marshal\<close> of a value, as a document: an int and a float64 are numbers, a byte
  slice is a base64 string, the members of a map are sorted by key. Every value of the
  model can be encoded.
\<close>

fun json_encode :: "value \<Rightarrow> json" where
  "json_encode VNil = JNull"
| "json_encode (VBool b) = JBool b"
| "json_encode (VString s) = JString s"
| "json_encode (VInt i) = JNumber i"
| "json_encode (VFloat64 i) = JNumber i"
| "json_encode (VBytes bs) = JString (base64 (map of_char bs))"
| "json_encode (VSlice vs) = JArray (map json_encode vs)"
| "json_encode (VMap kvs) = JObject (map (\<lambda>kv. (fst kv, json_encode (snd kv))) (sort_key fst kvs))"

text \<open>
  \<^verbatim>\<open>json.Unmarshal\<close> into an \<^verbatim>\<open>interface{}\<close>: a number becomes a float64, an array a
  slice, an object a map in which the last of several equal keys wins.
\<close>

definition last_wins :: "('k \<times> 'v) list \<Rightarrow> ('k \<times> 'v) list" where
  "last_wins kvs = rev (AList.clearjunk (rev kvs))"

fun json_decode :: "json \<Rightarrow> value" where
  "json_decode JNull = VNil"
| "json_decode (JBool b) = VBool b"
| "json_decode (JNumber i) = VFloat64 i"
| "json_decode (JString s) = VString s"
| "json_decode (JArray js) = VSlice (map json_decode js)"
| "json_decode (JObject kvs) = VMap (last_wins (map (\<lambda>kv. (fst kv, json_decode (snd kv))) kvs))"

text \<open>
  The compact text of a document; the package uses it only where the encoded bytes of a
  nested problem are stored as a value. Numbers are written in decimal.
\<close>

definition json_escape_char :: "char \<Rightarrow> string" where
  "json_escape_char c =
     (let n = (of_char c :: nat) in
      if c = CHR 0x22 then [CHR 0x5C, CHR 0x22]
      else if c = CHR 0x5C then [CHR 0x5C, CHR 0x5C]
      else if n = 10 then [CHR 0x5C, CHR ''n'']
      else if n = 13 then [CHR 0x5C, CHR ''r'']
      else if n = 9 then [CHR 0x5C, CHR ''t'']
      else if n < 32 \<or> c = CHR ''<'' \<or> c = CHR ''>'' \<or> c = CHR ''&''
        then [CHR 0x5C, CHR ''u'', CHR ''0'', CHR ''0'', hex_digit (n div 16), hex_digit (n mod 16)]
      else [c])"

definition json_string_text :: "string \<Rightarrow> string" where
  "json_string_text s = [CHR 0x22] @ concat (map json_escape_char s) @ [CHR 0x22]"

fun json_text :: "json \<Rightarrow> string" where
  "json_text JNull = ''null''"
| "json_text (JBool b) = (if b then ''true'' else ''false'')"
| "json_text (JNumber i) = show_int i"
| "json_text (JString s) = json_string_text s"
| "json_text (JArray js) = ''['' @ join '','' (map json_text js) @ '']''"
| "json_text (JObject kvs) =
     ''{'' @ join '','' (map (\<lambda>kv. json_string_text (fst kv) @ '':'' @ json_text (snd kv)) kvs) @ ''}''"

text \<open>\<^verbatim>\<open>http.StatusText\<close>: the reason phrase of a status code, empty for a code it does not know.\<close>

definition status_texts :: "(int \<times> string) list" where
  "status_texts =
    [(100, ''Continue''), (101, ''Switching Protocols''), (102, ''Processing''),
     (103, ''Early Hints''),
     (200, ''OK''), (201, ''Created''), (202, ''Accepted''),
     (203, ''Non-Authoritative Information''), (204, ''No Content''), (205, ''Reset Content''),
     (206, ''Partial Content''), (207, ''Multi-Status''), (208, ''Already Reported''),
     (226, ''IM Used''),
     (300, ''Multiple Choices''), (301, ''Moved Permanently''), (302, ''Found''),
     (303, ''See Other''), (304, ''Not Modified''), (305, ''Use Proxy''),
     (307, ''Temporary Redirect''), (308, ''Permanent Redirect''),
     (400, ''Bad Request''), (401, ''Unauthorized''), (402, ''Payment Required''),
     (403, ''Forbidden''), (404, ''Not Found''), (405, ''Method Not Allowed''),
     (406, ''Not Acceptable''), (407, ''Proxy Authentication Required''),
     (408, ''Request Timeout''), (409, ''Conflict''), (410, ''Gone''),
     (411, ''Length Required''), (412, ''Precondition Failed''),
     (413, ''Request Entity Too Large''), (414, ''Request URI Too Long''),
     (415, ''Unsupported Media Type''), (416, ''Requested Range Not Satisfiable''),
     (417, ''Expectation Failed''), (418, ''I'' @ [CHR 0x27] @ ''m a teapot''),
     (421, ''Misdirected Request''), (422, ''Unprocessable Entity''), (423, ''Locked''),
     (424, ''Failed Dependency''), (425, ''Too Early''), (426, ''Upgrade Required''),
     (428, ''Precondition Required''), (429, ''Too Many Requests''),
     (431, ''Request Header Fields Too Large''), (451, ''Unavailable For Legal Reasons''),
     (500, ''Internal Server Error''), (501, ''Not Implemented''), (502, ''Bad Gateway''),
     (503, ''Service Unavailable''), (504, ''Gateway Timeout''),
     (505, ''HTTP Version Not Supported''), (506, ''Variant Also Negotiates''),
     (507, ''Insufficient Storage''), (508, ''Loop Detected''), (510, ''Not Extended''),
     (511, ''Network Authentication Required'')]"

definition StatusText :: "int \<Rightarrow> string" where
  "StatusText code = (case map_of status_texts code of Some t \<Rightarrow> t | None \<Rightarrow> [])"

text \<open>\<^verbatim>\<open>strings.HasSuffix\<close>, and the first piece of \<^verbatim>\<open>strings.Split\<close> at a comma.\<close>

definition HasSuffix :: "string \<Rightarrow> string \<Rightarrow> bool" where
  "HasSuffix s suf = (length suf \<le> length s \<and> drop (length s - length suf) s = suf)"

definition Split_first :: "string \<Rightarrow> string" where
  "Split_first s = takeWhile (\<lambda>c. c \<noteq> CHR '','') s"

section \<open>The problem type\<close>

text \<open>
  \<^verbatim>\<open>Problem\<close> has the five fixed fields, the attributes and the unexported cause
  \<^verbatim>\<open>err\<close>. The status is a Go \<^verbatim>\<open>int\<close>; the package does no arithmetic on it, and it is
  an integer here. The attributes are a Go map, which may be nil: \<open>None\<close> is the nil map, and
  the association list of a non-nil map lists its entries in the order in which
  \<^verbatim>\<open>range\<close> visits them (an order the runtime chooses; a statement about every
  list covers every order).

  An \<^verbatim>\<open>error\<close> is a plain error with its message, the wrapper that
  \<^verbatim>\<open>fmt.Errorf("Problem: %w", e)\<close> builds around \<open>e\<close>, or a \<^verbatim>\<open>*Problem\<close>; the nil error is
  \<open>None\<close>. Problems are held by value: a cause that is a problem is the problem it points
  to, as it was when the cause was stored (a later write to that problem through another
  pointer is not seen through the cause, and no problem is its own cause), and a method
  that writes to its receiver returns the receiver it leaves behind.
\<close>

datatype error =
    Plain string
  | Errorf error
  | AsProblem Problem
and Problem =
    Problem (Type: string) (Title: string) (Status: int) (Detail: string) (Instance: string)
            (Attributes: "(string \<times> value) list option") (err: "error option")

definition set_Type :: "string \<Rightarrow> Problem \<Rightarrow> Problem" where
  "set_Type x p = Problem x (Title p) (Status p) (Detail p) (Instance p) (Attributes p) (err p)"

definition set_Title :: "string \<Rightarrow> Problem \<Rightarrow> Problem" where
  "set_Title x p = Problem (Type p) x (Status p) (Detail p) (Instance p) (Attributes p) (err p)"

definition set_Status :: "int \<Rightarrow> Problem \<Rightarrow> Problem" where
  "set_Status x p = Problem (Type p) (Title p) x (Detail p) (Instance p) (Attributes p) (err p)"

definition set_Detail :: "string \<Rightarrow> Problem \<Rightarrow> Problem" where
  "set_Detail x p = Problem (Type p) (Title p) (Status p) x (Instance p) (Attributes p) (err p)"

definition set_Instance :: "string \<Rightarrow> Problem \<Rightarrow> Problem" where
  "set_Instance x p = Problem (Type p) (Title p) (Status p) (Detail p) x (Attributes p) (err p)"

definition set_Attributes :: "(string \<times> value) list option \<Rightarrow> Problem \<Rightarrow> Problem" where
  "set_Attributes x p = Problem (Type p) (Title p) (Status p) (Detail p) (Instance p) x (err p)"

definition set_err :: "error option \<Rightarrow> Problem \<Rightarrow> Problem" where
  "set_err x p = Problem (Type p) (Title p) (Status p) (Detail p) (Instance p) (Attributes p) x"

text \<open>The zero value \<^verbatim>\<open>Problem{}\<close>.\<close>

definition zero_Problem :: Problem where
  "zero_Problem = Problem [] [] 0 [] [] None None"

text \<open>
  \<^verbatim>\<open>Error()\<close> of an error value; for a problem it is \<^verbatim>\<open>fmt.Sprintf("%d: %s", Status, Detail)\<close>.
\<close>

fun Error :: "error \<Rightarrow> string" where
  "Error (Plain m) = m"
| "Error (Errorf e) = ''Problem: '' @ Error e"
| "Error (AsProblem p) = show_int (Status p) @ '': '' @ Detail p"

definition New :: "int \<Rightarrow> string \<Rightarrow> Problem" where
  "New status message = set_Detail message (set_Status status zero_Problem)"

definition GetTitle :: "Problem \<Rightarrow> string" where
  "GetTitle p = (if length (Title p) = 0 then StatusText (Status p) else Title p)"

text \<open>
  \<^verbatim>\<open>FromErrorWithStatus\<close> calls \<^verbatim>\<open>err.Error()\<close> first, which panics on the nil error.
\<close>

datatype panic = NilDereference

definition FromErrorWithStatus_nonnil :: "int \<Rightarrow> error \<Rightarrow> Problem" where
  "FromErrorWithStatus_nonnil status e = set_err (Some (Errorf e)) (New status (Error e))"

definition FromErrorWithStatus :: "int \<Rightarrow> error option \<Rightarrow> panic + Problem" where
  "FromErrorWithStatus status e =
     (case e of
        None \<Rightarrow> Inl NilDereference
      | Some e' \<Rightarrow> Inr (FromErrorWithStatus_nonnil status e'))"

definition StatusInternalServerError :: int where
  "StatusInternalServerError = 500"

definition FromError_nonnil :: "error \<Rightarrow> Problem" where
  "FromError_nonnil e = FromErrorWithStatus_nonnil StatusInternalServerError e"

definition FromError :: "error option \<Rightarrow> panic + Problem" where
  "FromError e = FromErrorWithStatus StatusInternalServerError e"

definition Wrap :: "error option \<Rightarrow> panic + Problem" where
  "Wrap e =
     (case e of
        Some (AsProblem problem) \<Rightarrow> Inr problem
      | _ \<Rightarrow> FromError e)"

section \<open>Marshal\<close>

type_synonym renderType = string

definition jsonType :: renderType where
  "jsonType = ''json''"

definition xmlType :: renderType where
  "xmlType = ''xml''"

text \<open>
  The struct tags of the fields; \<^verbatim>\<open>Tag.Lookup\<close> finds a value only under the keys
  written in the tag.
\<close>

definition field_tag :: "string \<Rightarrow> (string \<times> string) list" where
  "field_tag name =
     (if name = ''Type'' then [(''json'', ''type,omitempty'')]
      else if name = ''Instance'' then [(''json'', ''instance,omitempty'')]
      else if name = ''Attributes'' then [(''json'', ''vars,omitempty''), (''xml'', ''vars,omitempty'')]
      else [])"

text \<open>The body of the loop over the struct fields, for one field and its value.\<close>

definition marshal_field ::
  "renderType \<Rightarrow> string \<times> value \<Rightarrow> (string \<times> value) list \<Rightarrow> (string \<times> value) list" where
  "marshal_field renderAs f out =
     (let name = fst f; v = snd f in
      if name \<noteq> ''Attributes'' \<and> name \<noteq> ''err'' then
        (let key = (case map_of (field_tag name) renderAs of Some t \<Rightarrow> t | None \<Rightarrow> name) in
         if HasSuffix key ''omitempty'' \<and> length (Sprint v) = 0 then out
         else AList.update (ToLower (Split_first key)) v out)
      else out)"

text \<open>
  The final \<^verbatim>\<open>switch\<close>: \<^verbatim>\<open>json.Marshal\<close> writes the mapping with its keys sorted;
  \<^verbatim>\<open>xml.Marshal\<close> refuses every map; any other format is the package's own error.
\<close>

definition encode_out :: "renderType \<Rightarrow> (string \<times> value) list \<Rightarrow> error + json" where
  "encode_out renderAs out =
     (if renderAs = jsonType then Inr (json_encode (VMap out))
      else if renderAs = xmlType then Inl (Plain ''xml: unsupported type: map[string]interface {}'')
      else Inl (AsProblem (New 500 ''Invalid Marshal type specified'')))"

text \<open>
  \<^verbatim>\<open>Marshal\<close> in two steps. \<open>Marshal_build\<close> is the body up to the final
  \<^verbatim>\<open>switch\<close>: it returns the output mapping \<^verbatim>\<open>out\<close> and the receiver as it leaves it.
  \<open>Marshal\<close> then encodes the mapping and returns the encoding or the error, with the
  receiver. The call \<^verbatim>\<open>problem.MarshalJSON()\<close> on a cause that is a problem is the same two
  steps in the format \<^verbatim>\<open>json\<close>. \<open>fields_out\<close> is the loop over the struct fields
  (\<^verbatim>\<open>Attributes\<close> and \<^verbatim>\<open>err\<close>, which the loop skips, are not in the list it is given
  here), \<open>merge_attributes\<close> the loop over the attributes.
\<close>

definition fields_out :: "renderType \<Rightarrow> Problem \<Rightarrow> (string \<times> value) list" where
  "fields_out renderAs prob =
     fold (marshal_field renderAs)
       [(''Type'', VString (Type prob)), (''Title'', VString (Title prob)),
        (''Status'', VInt (Status prob)), (''Detail'', VString (Detail prob)),
        (''Instance'', VString (Instance prob))] []"

definition merge_attributes ::
  "(string \<times> value) list option \<Rightarrow> (string \<times> value) list \<Rightarrow> (string \<times> value) list" where
  "merge_attributes at out =
     fold (\<lambda>kv. AList.update (ToLower (fst kv)) (snd kv)) (case at of None \<Rightarrow> [] | Some m \<Rightarrow> m) out"

fun Marshal_build :: "renderType \<Rightarrow> Problem \<Rightarrow> (string \<times> value) list \<times> Problem" where
  "Marshal_build renderAs (Problem ty ti st de ins at cause) =
     (let ty1 = (if ty = [] then ''about:blank'' else ty);
          ti1 = GetTitle (Problem ty1 ti st de ins at cause);
          out0 = fields_out renderAs (Problem ty1 ti1 st de ins at cause);
          r = (if cause \<noteq> None \<and> ty1 \<noteq> ''about:blank'' then
                 (let r1 = (case cause of
                              Some (AsProblem problem) \<Rightarrow>
                                (case Marshal_build ''json'' problem of
                                   (out', problem') \<Rightarrow>
                                     (case encode_out ''json'' out' of
                                        Inr j \<Rightarrow>
                                          (AList.update ''error'' (VBytes (json_text j)) out0,
                                           Some (AsProblem problem'))
                                      | Inl e \<Rightarrow> (out0, Some (AsProblem problem'))))
                            | _ \<Rightarrow> (out0, cause))
                  in (AList.update ''error'' (VString (Error (the (snd r1)))) (fst r1), snd r1))
               else (out0, cause));
          out2 = merge_attributes at (fst r)
      in (out2, Problem ty1 ti1 st de ins at (snd r)))"

definition Marshal :: "renderType \<Rightarrow> Problem \<Rightarrow> (error + json) \<times> Problem" where
  "Marshal renderAs prob =
     (case Marshal_build renderAs prob of (out, prob') \<Rightarrow> (encode_out renderAs out, prob'))"

definition MarshalJSON :: "Problem \<Rightarrow> (error + json) \<times> Problem" where
  "MarshalJSON p = Marshal jsonType p"

definition MarshalXML :: "Problem \<Rightarrow> (error + json) \<times> Problem" where
  "MarshalXML p = Marshal xmlType p"

text \<open>
  \<^verbatim>\<open>PrettyPrint\<close> encodes the receiver with \<^verbatim>\<open>json.MarshalIndent\<close>, which calls
  \<^verbatim>\<open>MarshalJSON\<close>, and prints the document or the error: the result is what is printed and
  the receiver afterwards.
\<close>

definition PrettyPrint :: "Problem \<Rightarrow> (error + json) \<times> Problem" where
  "PrettyPrint p =
     (case MarshalJSON p of
        (Inr pp, p') \<Rightarrow> (Inr pp, p')
      | (Inl e, p') \<Rightarrow>
          (Inl (Plain (''json: error calling MarshalJSON for type *problems.Problem: '' @ Error e)), p'))"

section \<open>Set\<close>

text \<open>
  The outcome of \<^verbatim>\<open>Set\<close>: the error it returns (\<open>None\<close> is nil), the receiver
  afterwards, and what it printed on standard output.
\<close>

record set_result =
  returned :: "error option"
  receiver :: Problem
  printed :: "(error + json) list"

definition attrs :: "Problem \<Rightarrow> (string \<times> value) list" where
  "attrs p = (case Attributes p of None \<Rightarrow> [] | Some m \<Rightarrow> m)"

definition Set :: "string \<Rightarrow> value \<Rightarrow> Problem \<Rightarrow> set_result" where
  "Set key v prob =
     (let k = Title_str key in
      if k = ''Title'' then
        \<lparr>returned = None, receiver = set_Title (Sprint v) prob, printed = []\<rparr>
      else if k = ''Status'' then
        \<lparr>returned = Some (AsProblem (New 500 ''Cannot set status with Set'')),
         receiver = prob, printed = []\<rparr>
      else if k = ''Type'' then
        \<lparr>returned = None, receiver = set_Type (Sprint v) prob, printed = []\<rparr>
      else if k = ''Detail'' then
        \<lparr>returned = None, receiver = set_Detail (Sprint v) prob, printed = []\<rparr>
      else if k = ''Instance'' then
        \<lparr>returned = None, receiver = set_Instance (Sprint v) prob, printed = []\<rparr>
      else if Type prob = [] \<or> Type prob = ''about:blank'' then
        (let e = FromError_nonnil (AsProblem prob);
             e1 = set_Detail ''Cannot set extended attributes unless Type is set'' e;
             pp = PrettyPrint e1
         in \<lparr>returned = Some (AsProblem (snd pp)), receiver = prob, printed = [fst pp]\<rparr>)
      else
        (let prob1 = (if Attributes prob = None then set_Attributes (Some []) prob else prob)
         in \<lparr>returned = None,
             receiver = set_Attributes (Some (AList.update key v (attrs prob1))) prob1,
             printed = []\<rparr>))"

section \<open>Unmarshal\<close>

text \<open>
  The input bytes are given by what the two decoders make of them: for
  \<^verbatim>\<open>json.Unmarshal\<close> the message of its syntax error or the document read, for
  \<^verbatim>\<open>xml.Unmarshal\<close> the message of its error (it cannot decode into a map, so it fails on
  every input).
\<close>

datatype bytes = Bytes (json_parse: "string + json") (xml_error: string)

text \<open>
  \<^verbatim>\<open>json.Unmarshal\<close> into the empty \<^verbatim>\<open>map[string]interface{}\<close>: an object fills it, null
  leaves nothing in it, any other document is a type error.
\<close>

definition json_Unmarshal :: "bytes \<Rightarrow> error + (string \<times> value) list" where
  "json_Unmarshal data =
     (case json_parse data of
        Inl msg \<Rightarrow> Inl (Plain msg)
      | Inr JNull \<Rightarrow> Inr []
      | Inr (JObject kvs) \<Rightarrow> Inr (last_wins (map (\<lambda>kv. (fst kv, json_decode (snd kv))) kvs))
      | Inr (JBool b) \<Rightarrow>
          Inl (Plain ''json: cannot unmarshal bool into Go value of type map[string]interface {}'')
      | Inr (JNumber i) \<Rightarrow>
          Inl (Plain ''json: cannot unmarshal number into Go value of type map[string]interface {}'')
      | Inr (JString s) \<Rightarrow>
          Inl (Plain ''json: cannot unmarshal string into Go value of type map[string]interface {}'')
      | Inr (JArray js) \<Rightarrow>
          Inl (Plain ''json: cannot unmarshal array into Go value of type map[string]interface {}''))"

text \<open>The loop over the decoded mapping; it returns at the first status that is not a number.\<close>

fun Unmarshal_range :: "(string \<times> value) list \<Rightarrow> Problem \<Rightarrow> error option \<times> Problem" where
  "Unmarshal_range [] prob = (None, prob)"
| "Unmarshal_range ((k, v) # rest) prob =
     (let t = Title_str k in
      if t = ''Type'' then Unmarshal_range rest (set_Type (Sprint v) prob)
      else if t = ''Title'' then Unmarshal_range rest (set_Title (Sprint v) prob)
      else if t = ''Status'' then
        (case Atoi (Sprint v) of
           Inl e \<Rightarrow> (Some (AsProblem (FromError_nonnil (Plain (num_error_text (Sprint v) e)))), prob)
         | Inr stat \<Rightarrow> Unmarshal_range rest (set_Status stat prob))
      else if t = ''Detail'' then Unmarshal_range rest (set_Detail (Sprint v) prob)
      else if t = ''Instance'' then Unmarshal_range rest (set_Instance (Sprint v) prob)
      else Unmarshal_range rest (set_Attributes (Some (AList.update k v (attrs prob))) prob))"

definition Unmarshal :: "renderType \<Rightarrow> bytes \<Rightarrow> Problem \<Rightarrow> error option \<times> Problem" where
  "Unmarshal renderAs data prob =
     (if renderAs = jsonType then
        (case json_Unmarshal data of
           Inl e \<Rightarrow> (Some (AsProblem (FromError_nonnil e)), prob)
         | Inr target \<Rightarrow> Unmarshal_range target (set_Attributes (Some []) prob))
      else if renderAs = xmlType then
        (Some (AsProblem (FromError_nonnil (Plain (xml_error data)))), prob)
      else (Some (AsProblem (New 500 (renderAs @ '' is an invalid type''))), prob))"

definition UnmarshalJSON :: "bytes \<Rightarrow> Problem \<Rightarrow> error option \<times> Problem" where
  "UnmarshalJSON data prob = Unmarshal jsonType data prob"

definition UnmarshalXML :: "bytes \<Rightarrow> Problem \<Rightarrow> error option \<times> Problem" where
  "UnmarshalXML data prob = Unmarshal xmlType data prob"


section \<open>Notions used in the statements\<close>

text \<open>
  The names under which \<^verbatim>\<open>Set\<close> and \<^verbatim>\<open>Unmarshal\<close> recognise a fixed field, after
  \<^verbatim>\<open>strings.Title\<close>; a key is \<open>fixed_name\<close> when its title form is one of them. The
  reserved names of the wire format are the same names in lower case; a key is \<open>reserved\<close>
  when it equals one of them case-insensitively.
\<close>

definition fixed_names :: "string list" where
  "fixed_names = [''Title'', ''Status'', ''Type'', ''Detail'', ''Instance'']"

definition fixed_name :: "string \<Rightarrow> bool" where
  "fixed_name key = (Title_str key \<in> set fixed_names)"












section \<open>Facts about the library functions\<close>

lemma to_lower_idem [simp]: "to_lower (to_lower c) = to_lower c"
  by (simp add: to_lower_def is_upper_def)

lemma ToLower_idem [simp]: "ToLower (ToLower s) = ToLower s"
  by (simp add: ToLower_def)

lemma to_lower_to_title [simp]: "to_lower (to_title c) = to_lower c"
  by (auto simp add: to_lower_def to_title_def is_upper_def is_lower_def)



section \<open>What Marshal leaves in the receiver\<close>

lemma Marshal_build_Type:
  "Type (snd (Marshal_build r p)) = (if Type p = [] then ''about:blank'' else Type p)"
  by (cases p) (simp add: Let_def)

lemma Marshal_build_Title: "Title (snd (Marshal_build r p)) = GetTitle p"
  by (cases p) (simp add: Let_def GetTitle_def)


lemma snd_Marshal: "snd (Marshal r p) = snd (Marshal_build r p)"
  by (simp add: Marshal_def split: prod.splits)

text \<open>
  C7. For every problem whose type is empty, \<^verbatim>\<open>Marshal\<close>, in whatever format, leaves the
  type \<^verbatim>\<open>about:blank\<close> in the problem itself: the receiver it returns, which is the
  problem the caller holds afterwards, has that type.
\<close>

theorem Marshal_blank_Type:
  "Type p = [] \<Longrightarrow> Type (snd (Marshal renderAs p)) = ''about:blank''"
  by (simp add: snd_Marshal Marshal_build_Type)

theorem Marshal_blank_Type_witness:
  "Type (New 500 ''An Error has occurred'') = []
   \<and> Type (snd (Marshal jsonType (New 500 ''An Error has occurred''))) = ''about:blank''"
proof -
  have h: "Type (New 500 ''An Error has occurred'') = []"
    by code_simp
  from Marshal_blank_Type [OF h, of jsonType] h show ?thesis
    by simp
qed

text \<open>
  C10. \<^verbatim>\<open>Marshal\<close> writes the title as well: for every problem with an empty title, after
  \<^verbatim>\<open>Marshal\<close> in whatever format (also one that it rejects), the title of the problem is the
  reason phrase of its status, which is the empty string for a status without one.
\<close>

theorem Marshal_writes_Title:
  "Title p = [] \<Longrightarrow>
     Title (snd (Marshal renderAs p)) = StatusText (Status p)
     \<and> (map_of status_texts (Status p) = None \<longrightarrow> Title (snd (Marshal renderAs p)) = [])"
  by (simp add: snd_Marshal Marshal_build_Title GetTitle_def StatusText_def)

theorem Marshal_writes_Title_witness:
  "Title (New 555 ''Test Error'') = []
   \<and> map_of status_texts (Status (New 555 ''Test Error'')) = None
   \<and> Title (snd (Marshal ''yaml'' (New 555 ''Test Error''))) = StatusText 555
   \<and> Title (snd (Marshal ''yaml'' (New 555 ''Test Error''))) = []
   \<and> Title (snd (Marshal jsonType (New 500 ''Test Error''))) = ''Internal Server Error''"
proof -
  have h: "Title (New 555 ''Test Error'') = []"
    by code_simp
  have n: "map_of status_texts (Status (New 555 ''Test Error'')) = None"
    by code_simp
  have s: "Status (New 555 ''Test Error'') = 555"
    by code_simp
  have h5: "Title (New 500 ''Test Error'') = []"
    by code_simp
  have t5: "StatusText (Status (New 500 ''Test Error'')) = ''Internal Server Error''"
    by code_simp
  have t: "StatusText 555 = []"
    by code_simp
  from Marshal_writes_Title [OF h, of "''yaml''"] Marshal_writes_Title [OF h5, of jsonType]
       h n s t5 t
  show ?thesis
    by simp
qed

section \<open>Dispatch on the key\<close>

lemma isSeparator_upper: "is_upper c \<Longrightarrow> \<not> isSeparator c"
  by (simp add: isSeparator_def)

lemma isSeparator_lower: "is_lower c \<Longrightarrow> \<not> isSeparator c"
  by (simp add: isSeparator_def)

lemma is_lower_to_lower: "is_upper c \<Longrightarrow> is_lower (to_lower c)"
  by (simp add: to_lower_def is_upper_def is_lower_def)

lemma to_title_eq_upper:
  assumes "is_upper c"
  shows "to_title r = c \<longleftrightarrow> r = c \<or> r = to_lower c"
proof -
  let ?n = "of_char c :: nat" and ?m = "of_char r :: nat"
  have c: "65 \<le> ?n" "?n \<le> 90"
    using assms by (simp_all add: is_upper_def)
  have lc: "to_lower c = char_of (?n + 32)"
    using assms by (simp add: to_lower_def)
  show ?thesis
  proof (cases "is_lower r")
    case True
    then have m: "97 \<le> ?m" "?m \<le> 122"
      by (simp_all add: is_lower_def)
    have tb1: "take_bit 8 (?m - 32) = ?m - 32"
      using m by (simp add: take_bit_nat_eq_self)
    have tb2: "take_bit 8 (?n + 32) = ?n + 32"
      using c by (simp add: take_bit_nat_eq_self)
    have "to_title r = c \<longleftrightarrow> ?m - 32 = ?n"
      using True tb1 by (simp add: to_title_def char_of_eq_iff)
    moreover have "r = to_lower c \<longleftrightarrow> ?n + 32 = ?m"
      using tb2 lc char_of_eq_iff [of "?n + 32" r] by auto
    moreover have "r \<noteq> c"
      using m c by auto
    ultimately show ?thesis
      using m by auto
  next
    case False
    have "is_lower (to_lower c)"
      using assms by (simp add: to_lower_def is_upper_def is_lower_def)
    then have "r \<noteq> to_lower c"
      using False by auto
    then show ?thesis
      using False by (simp add: to_title_def)
  qed
qed

lemma Title_from_word:
  "\<not> isSeparator prev \<Longrightarrow> list_all (\<lambda>c. \<not> isSeparator c) w \<Longrightarrow> Title_from prev s = w \<longleftrightarrow> s = w"
proof (induction w arbitrary: prev s)
  case Nil
  then show ?case by (cases s) simp_all
next
  case (Cons x w)
  then show ?case by (cases s) auto
qed

lemma Title_str_eq:
  assumes "is_upper c" "list_all (\<lambda>c. \<not> isSeparator c) w"
  shows "Title_str s = c # w \<longleftrightarrow> s = c # w \<or> s = to_lower c # w"
proof (cases s)
  case Nil
  then show ?thesis by (simp add: Title_str_def)
next
  case (Cons r s')
  have sep: "isSeparator (CHR '' '')" by code_simp
  show ?thesis
  proof (cases "to_title r = c")
    case True
    then have "r = c \<or> r = to_lower c" using assms(1) to_title_eq_upper by blast
    then have "\<not> isSeparator r"
      using assms(1) isSeparator_upper isSeparator_lower is_lower_to_lower by blast
    then show ?thesis
      using Cons True sep Title_from_word [OF _ assms(2), of r s'] to_title_eq_upper [OF assms(1), of r]
      by (auto simp add: Title_str_def)
  next
    case False
    then show ?thesis
      using Cons sep to_title_eq_upper [OF assms(1), of r]
      by (auto simp add: Title_str_def)
  qed
qed

lemma Title_str_Status: "Title_str key = ''Status'' \<longleftrightarrow> key = ''Status'' \<or> key = ''status''"
proof -
  have u: "is_upper (CHR ''S'')" by code_simp
  have w: "list_all (\<lambda>c. \<not> isSeparator c) ''tatus''" by code_simp
  have l: "to_lower (CHR ''S'') = CHR ''s''" by code_simp
  show ?thesis using Title_str_eq [OF u w, of key] l by simp
qed

lemma Title_str_Title: "Title_str key = ''Title'' \<longleftrightarrow> key = ''Title'' \<or> key = ''title''"
proof -
  have u: "is_upper (CHR ''T'')" by code_simp
  have w: "list_all (\<lambda>c. \<not> isSeparator c) ''itle''" by code_simp
  have l: "to_lower (CHR ''T'') = CHR ''t''" by code_simp
  show ?thesis using Title_str_eq [OF u w, of key] l by simp
qed

lemma Title_str_Type: "Title_str key = ''Type'' \<longleftrightarrow> key = ''Type'' \<or> key = ''type''"
proof -
  have u: "is_upper (CHR ''T'')" by code_simp
  have w: "list_all (\<lambda>c. \<not> isSeparator c) ''ype''" by code_simp
  have l: "to_lower (CHR ''T'') = CHR ''t''" by code_simp
  show ?thesis using Title_str_eq [OF u w, of key] l by simp
qed

lemma Title_str_Detail: "Title_str key = ''Detail'' \<longleftrightarrow> key = ''Detail'' \<or> key = ''detail''"
proof -
  have u: "is_upper (CHR ''D'')" by code_simp
  have w: "list_all (\<lambda>c. \<not> isSeparator c) ''etail''" by code_simp
  have l: "to_lower (CHR ''D'') = CHR ''d''" by code_simp
  show ?thesis using Title_str_eq [OF u w, of key] l by simp
qed

lemma Title_str_Instance:
  "Title_str key = ''Instance'' \<longleftrightarrow> key = ''Instance'' \<or> key = ''instance''"
proof -
  have u: "is_upper (CHR ''I'')" by code_simp
  have w: "list_all (\<lambda>c. \<not> isSeparator c) ''nstance''" by code_simp
  have l: "to_lower (CHR ''I'') = CHR ''i''" by code_simp
  show ?thesis using Title_str_eq [OF u w, of key] l by simp
qed

lemmas Title_str_fixed =
  Title_str_Title Title_str_Status Title_str_Type Title_str_Detail Title_str_Instance

lemma fixed_name_iff:
  "fixed_name key \<longleftrightarrow>
     key \<in> set [''Title'', ''title'', ''Status'', ''status'', ''Type'', ''type'',
                ''Detail'', ''detail'', ''Instance'', ''instance'']"
  unfolding fixed_name_def fixed_names_def
  by (simp add: Title_str_fixed)



lemma Set_extension:
  "\<not> fixed_name key \<Longrightarrow>
   Set key v p =
     (if Type p = [] \<or> Type p = ''about:blank'' then
        \<lparr>returned = Some (AsProblem (snd (PrettyPrint
             (set_Detail ''Cannot set extended attributes unless Type is set''
                (FromError_nonnil (AsProblem p)))))),
         receiver = p,
         printed = [fst (PrettyPrint
             (set_Detail ''Cannot set extended attributes unless Type is set''
                (FromError_nonnil (AsProblem p))))]\<rparr>
      else \<lparr>returned = None,
            receiver = set_Attributes (Some (AList.update key v (attrs p))) p,
            printed = []\<rparr>)"
  by (auto simp add: Set_def fixed_name_def fixed_names_def Let_def attrs_def set_Attributes_def)



section \<open>Set: guard and status\<close>



lemma Set_Status_unchanged: "Status (receiver (Set key v p)) = Status p"
  by (simp add: Set_def Let_def set_Title_def set_Type_def set_Detail_def set_Instance_def
      set_Attributes_def)

lemma set_Type_sel [simp]:
  "Type (set_Type t p) = t" "Title (set_Type t p) = Title p" "Status (set_Type t p) = Status p"
  "Detail (set_Type t p) = Detail p" "Instance (set_Type t p) = Instance p"
  "Attributes (set_Type t p) = Attributes p" "err (set_Type t p) = err p"
  by (simp_all add: set_Type_def)

lemma set_Attributes_sel [simp]:
  "Type (set_Attributes t p) = Type p" "Title (set_Attributes t p) = Title p" "Status (set_Attributes t p) = Status p"
  "Detail (set_Attributes t p) = Detail p" "Instance (set_Attributes t p) = Instance p"
  "Attributes (set_Attributes t p) = t" "err (set_Attributes t p) = err p"
  by (simp_all add: set_Attributes_def)

lemma attrs_set_Attributes [simp]: "attrs (set_Attributes (Some m) p) = m"
  by (simp add: attrs_def)



text \<open>
  C3, as stated, fails: the key \<^verbatim>\<open>STATUS\<close> equals \<^verbatim>\<open>status\<close> case-insensitively, yet on a
  problem with a type of its own \<^verbatim>\<open>Set\<close> returns nil and stores the value as an attribute.
\<close>

theorem Set_status_counterexample:
  "ToLower ''STATUS'' = ''status''
   \<and> returned (Set ''STATUS'' (VInt 200) (Problem ''urn:t'' [] 500 ''d'' [] None None)) = None
   \<and> receiver (Set ''STATUS'' (VInt 200) (Problem ''urn:t'' [] 500 ''d'' [] None None)) =
       Problem ''urn:t'' [] 500 ''d'' [] (Some [(''STATUS'', VInt 200)]) None"
  by code_simp

text \<open>
  C3, amended. \<^verbatim>\<open>Set\<close> never changes the status, whatever the key. With the key
  \<^verbatim>\<open>status\<close> or \<^verbatim>\<open>Status\<close> it fails in every state, returning the problem of
  status 500 that \<^verbatim>\<open>New\<close> builds with the detail \<^verbatim>\<open>Cannot set status with Set\<close>, and leaves
  the receiver as it was. Any other spelling of \<^verbatim>\<open>status\<close> is the key of an extension
  attribute: on a problem with a type of its own, \<^verbatim>\<open>Set\<close> returns nil and stores the value.
\<close>

theorem Set_status_fails:
  "Status (receiver (Set key v p)) = Status p
   \<and> (key = ''status'' \<or> key = ''Status'' \<longrightarrow>
        returned (Set key v p) = Some (AsProblem (New 500 ''Cannot set status with Set''))
        \<and> receiver (Set key v p) = p)
   \<and> (ascii key \<and> ToLower key = ''status'' \<and> key \<noteq> ''status'' \<and> key \<noteq> ''Status''
        \<and> Type p \<noteq> [] \<and> Type p \<noteq> ''about:blank'' \<longrightarrow>
        returned (Set key v p) = None
        \<and> map_of (attrs (receiver (Set key v p))) key = Some v)"
proof -
  have a: "Title_str ''status'' = ''Status''" "Title_str ''Status'' = ''Status''"
    by code_simp+
  have b: "key = ''status'' \<or> key = ''Status'' \<Longrightarrow>
        returned (Set key v p) = Some (AsProblem (New 500 ''Cannot set status with Set''))
        \<and> receiver (Set key v p) = p"
    using a by (auto simp add: Set_def)
  have c: "\<not> fixed_name key"
    if l: "ToLower key = ''status''" and n: "key \<noteq> ''status''" "key \<noteq> ''Status''"
  proof
    assume f: "fixed_name key"
    have tl: "ToLower ''Title'' = ''title''" "ToLower ''title'' = ''title''"
      "ToLower ''Type'' = ''type''" "ToLower ''type'' = ''type''"
      "ToLower ''Detail'' = ''detail''" "ToLower ''detail'' = ''detail''"
      "ToLower ''Instance'' = ''instance''" "ToLower ''instance'' = ''instance''"
      by code_simp+
    have "key = ''Title'' \<or> key = ''title'' \<or> key = ''Type'' \<or> key = ''type'' \<or>
          key = ''Detail'' \<or> key = ''detail'' \<or> key = ''Instance'' \<or> key = ''instance''"
      using f n by (simp add: fixed_name_iff)
    then show False
      using l by (elim disjE) (simp_all add: tl)
  qed
  have d: "returned (Set key v p) = None \<and> map_of (attrs (receiver (Set key v p))) key = Some v"
    if "ToLower key = ''status''" "key \<noteq> ''status''" "key \<noteq> ''Status''"
       "Type p \<noteq> []" "Type p \<noteq> ''about:blank''"
    using that c by (simp add: Set_extension update_conv')
  show ?thesis
    using b d Set_Status_unchanged by blast
qed

theorem Set_status_fails_witness:
  "Status (receiver (Set ''Status'' (VInt 404) (New 500 ''d''))) = Status (New 500 ''d'')
   \<and> returned (Set ''Status'' (VInt 404) (New 500 ''d'')) =
       Some (AsProblem (New 500 ''Cannot set status with Set''))
   \<and> receiver (Set ''Status'' (VInt 404) (New 500 ''d'')) = New 500 ''d''
   \<and> ascii ''sTATUS'' \<and> ToLower ''sTATUS'' = ''status''
   \<and> Type (Problem ''urn:t'' [] 500 ''d'' [] None None) = ''urn:t''
   \<and> returned (Set ''sTATUS'' (VInt 404) (Problem ''urn:t'' [] 500 ''d'' [] None None)) = None
   \<and> map_of (attrs (receiver (Set ''sTATUS'' (VInt 404) (Problem ''urn:t'' [] 500 ''d'' [] None None))))
        ''sTATUS'' = Some (VInt 404)"
proof -
  have a: "ascii ''sTATUS''" by code_simp
  have l: "ToLower ''sTATUS'' = ''status''" by code_simp
  from Set_status_fails [of "''Status''" "VInt 404" "New 500 ''d''"]
       Set_status_fails [of "''sTATUS''" "VInt 404" "Problem ''urn:t'' [] 500 ''d'' [] None None"]
       a l
  show ?thesis by simp
qed

section \<open>Wrap\<close>

text \<open>
  C9, as stated, fails in its last part: the cause that \<^verbatim>\<open>Wrap\<close> stores for a plain error
  is not that error but a new one around it, whose message starts with \<^verbatim>\<open>Problem: \<close>.
\<close>

theorem Wrap_cause_counterexample:
  "Wrap (Some (Plain ''boom'')) =
     Inr (Problem [] [] 500 ''boom'' [] None (Some (Errorf (Plain ''boom''))))
   \<and> Error (Errorf (Plain ''boom'')) = ''Problem: boom''
   \<and> Errorf (Plain ''boom'') \<noteq> Plain ''boom''"
  by code_simp

text \<open>
  C9, amended. \<^verbatim>\<open>Wrap\<close> of an error that is a problem returns that problem, so wrapping
  what \<^verbatim>\<open>Wrap\<close> returned gives the same problem again. For any other error \<^verbatim>\<open>Wrap\<close> is
  \<^verbatim>\<open>FromError\<close>: status 500, the error's message as detail, every other field empty, and as
  cause the error that \<^verbatim>\<open>fmt.Errorf("Problem: %w", err)\<close> builds around it, whose message
  is \<^verbatim>\<open>Problem: \<close> followed by the error's message. On the nil error \<^verbatim>\<open>Wrap\<close> panics.
\<close>

theorem Wrap_idempotent:
  "Wrap (Some (AsProblem p)) = Inr p
   \<and> (Wrap e = Inr q \<longrightarrow> Wrap (Some (AsProblem q)) = Inr q)
   \<and> Wrap None = Inl NilDereference
   \<and> ((\<forall>p'. e' \<noteq> AsProblem p') \<longrightarrow>
        Wrap (Some e') = FromError (Some e')
        \<and> Wrap (Some e') = Inr (Problem [] [] 500 (Error e') [] None (Some (Errorf e')))
        \<and> Error (Errorf e') = ''Problem: '' @ Error e')"
  by (cases e') (simp_all add: Wrap_def FromError_def FromErrorWithStatus_def
      FromErrorWithStatus_nonnil_def New_def zero_Problem_def set_err_def set_Detail_def
      set_Status_def StatusInternalServerError_def)

theorem Wrap_idempotent_witness:
  "Wrap (Some (Plain ''boom'')) = Inr (Problem [] [] 500 ''boom'' [] None (Some (Errorf (Plain ''boom''))))
   \<and> Wrap (Some (AsProblem (Problem [] [] 500 ''boom'' [] None (Some (Errorf (Plain ''boom'')))))) =
       Inr (Problem [] [] 500 ''boom'' [] None (Some (Errorf (Plain ''boom''))))
   \<and> (\<forall>p'. Plain ''boom'' \<noteq> AsProblem p')
   \<and> Wrap (Some (Plain ''boom'')) = FromError (Some (Plain ''boom''))"
proof -
  have n: "\<forall>p'. Plain ''boom'' \<noteq> AsProblem p'" by simp
  have e: "Error (Plain ''boom'') = ''boom''" by simp
  from Wrap_idempotent [of "Problem [] [] 500 ''boom'' [] None (Some (Errorf (Plain ''boom'')))"
          "Some (Plain ''boom'')" "Problem [] [] 500 ''boom'' [] None (Some (Errorf (Plain ''boom'')))"
          "Plain ''boom''"] n e
  show ?thesis by auto
qed

section \<open>Which keys are fixed fields\<close>









section \<open>The output mapping of Marshal\<close>





































section \<open>Numbers that survive printing and parsing\<close>













section \<open>The loop of Unmarshal\<close>



lemma set_Title_sel [simp]:
  "Type (set_Title t p) = Type p" "Title (set_Title t p) = t" "Status (set_Title t p) = Status p"
  "Detail (set_Title t p) = Detail p" "Instance (set_Title t p) = Instance p"
  "Attributes (set_Title t p) = Attributes p" "err (set_Title t p) = err p"
  by (simp_all add: set_Title_def)

lemma set_Status_sel [simp]:
  "Type (set_Status t p) = Type p" "Title (set_Status t p) = Title p" "Status (set_Status t p) = t"
  "Detail (set_Status t p) = Detail p" "Instance (set_Status t p) = Instance p"
  "Attributes (set_Status t p) = Attributes p" "err (set_Status t p) = err p"
  by (simp_all add: set_Status_def)

lemma set_Detail_sel [simp]:
  "Type (set_Detail t p) = Type p" "Title (set_Detail t p) = Title p" "Status (set_Detail t p) = Status p"
  "Detail (set_Detail t p) = t" "Instance (set_Detail t p) = Instance p"
  "Attributes (set_Detail t p) = Attributes p" "err (set_Detail t p) = err p"
  by (simp_all add: set_Detail_def)

lemma set_Instance_sel [simp]:
  "Type (set_Instance t p) = Type p" "Title (set_Instance t p) = Title p"
  "Status (set_Instance t p) = Status p" "Detail (set_Instance t p) = Detail p"
  "Instance (set_Instance t p) = t" "Attributes (set_Instance t p) = Attributes p"
  "err (set_Instance t p) = err p"
  by (simp_all add: set_Instance_def)

lemma attrs_setters [simp]:
  "attrs (set_Type t p) = attrs p" "attrs (set_Title t p) = attrs p"
  "attrs (set_Status n p) = attrs p" "attrs (set_Detail t p) = attrs p"
  "attrs (set_Instance t p) = attrs p"
  by (simp_all add: attrs_def)








section \<open>Marshal, then Unmarshal\<close>























end
